theory Spec2Isabelle
  imports Main
begin

section \<open>Values that travel through the queue\<close>

text \<open>
  The queue is a Python \<^verbatim>\<open>queue.Queue\<close>; nothing restricts what a producer puts
  into it, and \<^verbatim>\<open>update_ui\<close> passes every item through the builtin \<^verbatim>\<open>int()\<close>.
  The items are therefore modelled as Python values: integers (unbounded), booleans,
  floats, strings and \<^verbatim>\<open>None\<close>. A finite float is the dyadic rational \<open>m * 2 ^ e\<close>
  (every finite double is one), so truncation is exact.
\<close>

datatype pyfloat = Finite int int | PosInf | NegInf | NaN

datatype pyval = PInt int | PBool bool | PFloat pyfloat | PStr string | PNone

datatype py_error = ValueError | OverflowError | TypeError

text \<open>What a call leaves behind: the state when it returns, or the exception and the
  state at the point where it was raised.\<close>

datatype 'a outcome = Returned 'a | Raised py_error 'a

fun state_of :: "'a outcome \<Rightarrow> 'a" where
  "state_of (Returned s) = s"
| "state_of (Raised e s) = s"

fun raised :: "'a outcome \<Rightarrow> py_error option" where
  "raised (Returned s) = None"
| "raised (Raised e s) = Some e"

subsection \<open>The builtin \<^verbatim>\<open>int()\<close>\<close>

text \<open>
  A string is a list of code points below 256. \<^verbatim>\<open>int()\<close> strips white space at
  both ends (the code points 9 to 13 and 32, and above ASCII the spaces 133 and 160; the
  separators 28 to 31 are not stripped), takes one optional sign and then decimal digits,
  where single underscores may stand between two digits. The limit that recent
  interpreters put on the number of digits of such a string is left out.
\<close>

definition py_isspace :: "char \<Rightarrow> bool" where
  "py_isspace c = (of_char c \<in> set [9, 10, 11, 12, 13, 32, 133, 160 :: nat])"

definition py_isdigit :: "char \<Rightarrow> bool" where
  "py_isdigit c = (48 \<le> (of_char c :: nat) \<and> (of_char c :: nat) \<le> 57)"

definition digit_value :: "char \<Rightarrow> nat" where
  "digit_value c = of_char c - 48"

definition py_strip :: "string \<Rightarrow> string" where
  "py_strip s = rev (dropWhile py_isspace (rev (dropWhile py_isspace s)))"

fun parse_digits :: "nat \<Rightarrow> bool \<Rightarrow> string \<Rightarrow> nat option" where
  "parse_digits acc after_digit [] = (if after_digit then Some acc else None)"
| "parse_digits acc after_digit (c # cs) =
     (if py_isdigit c then parse_digits (10 * acc + digit_value c) True cs
      else if c = CHR ''_'' \<and> after_digit then parse_digits acc False cs
      else None)"

definition int_of_str :: "string \<Rightarrow> py_error + int" where
  "int_of_str s =
     (case py_strip s of
        [] \<Rightarrow> Inl ValueError
      | c # cs \<Rightarrow>
          (if c = CHR ''-'' then
             (case parse_digits 0 False cs of None \<Rightarrow> Inl ValueError | Some n \<Rightarrow> Inr (- int n))
           else if c = CHR ''+'' then
             (case parse_digits 0 False cs of None \<Rightarrow> Inl ValueError | Some n \<Rightarrow> Inr (int n))
           else
             (case parse_digits 0 False (c # cs) of None \<Rightarrow> Inl ValueError | Some n \<Rightarrow> Inr (int n))))"

text \<open>Truncation towards zero of \<open>m * 2 ^ e\<close>.\<close>

definition int_of_finite :: "int \<Rightarrow> int \<Rightarrow> int" where
  "int_of_finite m e =
     (if 0 \<le> e then m * 2 ^ nat e
      else sgn m * (\<bar>m\<bar> div 2 ^ nat (- e)))"

fun py_int :: "pyval \<Rightarrow> py_error + int" where
  "py_int (PInt n) = Inr n"
| "py_int (PBool b) = Inr (if b then 1 else 0)"
| "py_int (PFloat (Finite m e)) = Inr (int_of_finite m e)"
| "py_int (PFloat PosInf) = Inl OverflowError"
| "py_int (PFloat NegInf) = Inl OverflowError"
| "py_int (PFloat NaN) = Inl ValueError"
| "py_int (PStr s) = int_of_str s"
| "py_int PNone = Inl TypeError"

section \<open>The window and the two media players\<close>

text \<open>
  The media engine (python-vlc) and the toolkit (PyQt5) are not part of the program. They
  are reduced to the attributes the program reads and writes: a player handle has a bound
  media object, a rendering surface, a position in milliseconds and a playing flag; a seek
  is honoured at once (\<^verbatim>\<open>get_time\<close> after \<^verbatim>\<open>set_time(t)\<close> reads \<open>t\<close>), and a fresh
  handle reads \<open>-1\<close> as the engine does without media. Media objects live in a store and
  are held by reference, since \<^verbatim>\<open>open_files\<close> parses a media object after it has
  handed it to the player. Every command the program sends to the toolkit, to the engine or
  to the queue is also appended to a trace, in the order in which it is sent; the queries
  \<^verbatim>\<open>get_time\<close> and \<^verbatim>\<open>is_playing\<close> change nothing and are not recorded.
\<close>

datatype track = Video | Audio

datatype surface = XWindow int | Hwnd int | NsObject int

datatype event =
    GetOpenFileName string
  | MediaNew track string
  | SetMedia track
  | Parse track
  | SetWindowTitle string
  | SetXWindow track int
  | SetHwnd track int
  | SetNsObject track int
  | Play track
  | ShowMessage string
  | QueueGet
  | SetTime track int

record media =
  mrl :: string
  parsed :: bool

record media_player =
  bound :: "nat option"
  surface :: "surface option"
  ptime :: int
  playing :: bool

record mini_player =
  window_title :: string
  statusbar :: string
  store :: "media list"
  video_media :: "nat option"
  audio_media :: "nat option"
  video_mediaplayer :: media_player
  audio_mediaplayer :: media_player
  data_queue :: "pyval list"
  trace :: "event list"

text \<open>What the surroundings answer: the file chooser (by dialog caption; it returns a
  pair of file name and filter), \<^verbatim>\<open>platform.system()\<close>, the window id of the video
  frame, and the metadata the engine finds in a file.\<close>

record host =
  getOpenFileName :: "string \<Rightarrow> string \<times> string"
  platform_system :: string
  winId :: int
  file_meta :: "string \<Rightarrow> nat \<Rightarrow> string option"

definition emit :: "event \<Rightarrow> mini_player \<Rightarrow> mini_player" where
  "emit e s = s\<lparr>trace := trace s @ [e]\<rparr>"

fun update_player :: "track \<Rightarrow> (media_player \<Rightarrow> media_player) \<Rightarrow> mini_player \<Rightarrow> mini_player" where
  "update_player Video f s = s\<lparr>video_mediaplayer := f (video_mediaplayer s)\<rparr>"
| "update_player Audio f s = s\<lparr>audio_mediaplayer := f (audio_mediaplayer s)\<rparr>"

definition media_player_new :: media_player where
  "media_player_new = \<lparr>bound = None, surface = None, ptime = - 1, playing = False\<rparr>"

definition get_time :: "media_player \<Rightarrow> int" where
  "get_time p = ptime p"

definition is_playing :: "media_player \<Rightarrow> bool" where
  "is_playing p = playing p"

definition set_time :: "track \<Rightarrow> int \<Rightarrow> mini_player \<Rightarrow> mini_player" where
  "set_time k t s = emit (SetTime k t) (update_player k (\<lambda>p. p\<lparr>ptime := t\<rparr>) s)"

definition play :: "track \<Rightarrow> mini_player \<Rightarrow> mini_player" where
  "play k s = emit (Play k) (update_player k (\<lambda>p. p\<lparr>playing := True\<rparr>) s)"

definition set_media :: "track \<Rightarrow> nat option \<Rightarrow> mini_player \<Rightarrow> mini_player" where
  "set_media k r s = emit (SetMedia k) (update_player k (\<lambda>p. p\<lparr>bound := r\<rparr>) s)"

definition set_xwindow :: "track \<Rightarrow> int \<Rightarrow> mini_player \<Rightarrow> mini_player" where
  "set_xwindow k w s = emit (SetXWindow k w) (update_player k (\<lambda>p. p\<lparr>surface := Some (XWindow w)\<rparr>) s)"

definition set_hwnd :: "track \<Rightarrow> int \<Rightarrow> mini_player \<Rightarrow> mini_player" where
  "set_hwnd k w s = emit (SetHwnd k w) (update_player k (\<lambda>p. p\<lparr>surface := Some (Hwnd w)\<rparr>) s)"

definition set_nsobject :: "track \<Rightarrow> int \<Rightarrow> mini_player \<Rightarrow> mini_player" where
  "set_nsobject k w s = emit (SetNsObject k w) (update_player k (\<lambda>p. p\<lparr>surface := Some (NsObject w)\<rparr>) s)"

definition setWindowTitle :: "string \<Rightarrow> mini_player \<Rightarrow> mini_player" where
  "setWindowTitle t s = emit (SetWindowTitle t) (s\<lparr>window_title := t\<rparr>)"

definition showMessage :: "string \<Rightarrow> mini_player \<Rightarrow> mini_player" where
  "showMessage m s = emit (ShowMessage m) (s\<lparr>statusbar := m\<rparr>)"

subsection \<open>Media objects\<close>

text \<open>\<^verbatim>\<open>instance.media_new(path)\<close> allocates a media object and returns its reference.\<close>

definition media_new :: "track \<Rightarrow> string \<Rightarrow> mini_player \<Rightarrow> nat \<times> mini_player" where
  "media_new k path s =
     (length (store s), emit (MediaNew k path) (s\<lparr>store := store s @ [\<lparr>mrl = path, parsed = False\<rparr>]\<rparr>))"

definition parse :: "track \<Rightarrow> nat option \<Rightarrow> mini_player \<Rightarrow> mini_player" where
  "parse k r s =
     emit (Parse k)
       (case r of
          None \<Rightarrow> s
        | Some i \<Rightarrow> if i < length (store s) then s\<lparr>store := (store s)[i := (store s ! i)\<lparr>parsed := True\<rparr>]\<rparr> else s)"

text \<open>\<^verbatim>\<open>media.get_meta(i)\<close>: the engine's metadata of the file once the media object
  has been parsed, \<^verbatim>\<open>None\<close> before.\<close>

definition get_meta :: "host \<Rightarrow> mini_player \<Rightarrow> nat option \<Rightarrow> nat \<Rightarrow> string option" where
  "get_meta h s r i =
     (case r of
        None \<Rightarrow> None
      | Some j \<Rightarrow>
          if j < length (store s) \<and> parsed (store s ! j) then file_meta h (mrl (store s ! j)) i
          else None)"

text \<open>\<^verbatim>\<open>"{}".format(x)\<close> for a string or \<^verbatim>\<open>None\<close>.\<close>

fun py_format :: "string option \<Rightarrow> string" where
  "py_format None = ''None''"
| "py_format (Some t) = t"

subsection \<open>The clock text of the status line\<close>

text \<open>
  \<^verbatim>\<open>QTime\<close> is a count of milliseconds since midnight. \<^verbatim>\<open>addMSecs\<close> takes a C
  \<^verbatim>\<open>int\<close>: the binding raises \<^verbatim>\<open>OverflowError\<close> for a Python integer below
  \<open>-2147483648\<close> or above \<open>2147483647\<close>, and inside that range Qt computes with 32-bit
  integers, division and remainder truncating towards zero:
  \<^verbatim>\<open>
  if (ms < 0) {
      int negdays = (MSECS_PER_DAY - ms) / MSECS_PER_DAY;
      t.mds = (ds() + ms + negdays * MSECS_PER_DAY) % MSECS_PER_DAY;
  } else {
      t.mds = (ds() + ms) % MSECS_PER_DAY;
  }
  \<close>
  so that \<open>MSECS_PER_DAY - ms\<close> wraps around for \<open>ms \<le> -2061083648\<close>.
  \<^verbatim>\<open>toString()\<close> prints \<^verbatim>\<open>HH:mm:ss\<close>, and nothing for an invalid time.
\<close>

definition MSECS_PER_DAY :: int where
  "MSECS_PER_DAY = 86400000"

definition fits_c_int :: "int \<Rightarrow> bool" where
  "fits_c_int x = (- 2147483648 \<le> x \<and> x \<le> 2147483647)"

definition wrap_c_int :: "int \<Rightarrow> int" where
  "wrap_c_int x = (x + 2147483648) mod 4294967296 - 2147483648"

definition c_div :: "int \<Rightarrow> int \<Rightarrow> int" where
  "c_div a b = sgn a * sgn b * (\<bar>a\<bar> div \<bar>b\<bar>)"

definition c_rem :: "int \<Rightarrow> int \<Rightarrow> int" where
  "c_rem a b = a - b * c_div a b"

definition QTime :: "int \<Rightarrow> int \<Rightarrow> int \<Rightarrow> int \<Rightarrow> int" where
  "QTime h m s ms = ((h * 60 + m) * 60 + s) * 1000 + ms"

definition addMSecs :: "int \<Rightarrow> int \<Rightarrow> py_error + int" where
  "addMSecs mds ms =
     (if \<not> fits_c_int ms then Inl OverflowError
      else if ms < 0 then
        (let negdays = c_div (wrap_c_int (MSECS_PER_DAY - ms)) MSECS_PER_DAY
         in Inr (c_rem (wrap_c_int (mds + ms + wrap_c_int (negdays * MSECS_PER_DAY))) MSECS_PER_DAY))
      else Inr (c_rem (wrap_c_int (mds + ms)) MSECS_PER_DAY))"

definition two_digits :: "int \<Rightarrow> string" where
  "two_digits n = [char_of (48 + (n div 10) mod 10), char_of (48 + n mod 10)]"

definition toString :: "int \<Rightarrow> string" where
  "toString mds =
     (if 0 \<le> mds \<and> mds < MSECS_PER_DAY then
        two_digits (mds div 3600000) @ '':'' @ two_digits ((mds div 60000) mod 60) @ '':'' @
        two_digits ((mds div 1000) mod 60)
      else [])"

section \<open>The program\<close>

subsection \<open>\<^verbatim>\<open>open_files\<close>\<close>

text \<open>The platform branch of \<^verbatim>\<open>open_files\<close> (the \<^verbatim>\<open>if\<close>/\<^verbatim>\<open>elif\<close> chain over
  \<^verbatim>\<open>platform.system()\<close>, which has no \<^verbatim>\<open>else\<close>), kept apart so that the function
  below reads in the order of the source.\<close>

definition attach :: "host \<Rightarrow> mini_player \<Rightarrow> mini_player" where
  "attach h s =
     (if platform_system h = ''Linux'' then
        set_xwindow Audio (winId h) (set_xwindow Video (winId h) s)
      else if platform_system h = ''Windows'' then
        set_hwnd Audio (winId h) (set_hwnd Video (winId h) s)
      else if platform_system h = ''Darwin'' then
        set_nsobject Audio (winId h) (set_nsobject Video (winId h) s)
      else s)"

definition open_files :: "host \<Rightarrow> mini_player \<Rightarrow> mini_player" where
  "open_files h s0 =
     (let dialog_txt = ''Choose Video File'';
          filename_video = getOpenFileName h dialog_txt;
          s1 = emit (GetOpenFileName dialog_txt) s0
      in if fst filename_video = [] then s1
      else
        let dialog_txt = ''Choose Audio File'';
            filename_audio = getOpenFileName h dialog_txt;
            s2 = emit (GetOpenFileName dialog_txt) s1
        in if fst filename_audio = [] then s2
        else
          let (v, s3) = media_new Video (fst filename_video) s2;
              s3 = s3\<lparr>video_media := Some v\<rparr>;
              (a, s4) = media_new Audio (fst filename_audio) s3;
              s4 = s4\<lparr>audio_media := Some a\<rparr>;
              s5 = set_media Video (video_media s4) s4;
              s6 = set_media Audio (audio_media s5) s5;
              s7 = parse Video (video_media s6) s6;
              s8 = parse Audio (audio_media s7) s7;
              s9 = setWindowTitle (py_format (get_meta h s8 (video_media s8) 0)) s8;
              s10 = attach h s9;
              s11 = play Video s10
          in play Audio s11)"

subsection \<open>\<^verbatim>\<open>update_statusbar\<close>\<close>

text \<open>Both clock times are computed before either playing flag is looked at, so either
  call of \<^verbatim>\<open>addMSecs\<close> can end the function with its exception, the status line
  untouched.\<close>

definition update_statusbar :: "mini_player \<Rightarrow> mini_player outcome" where
  "update_statusbar s =
     (let mtime = QTime 0 0 0 0 in
      case addMSecs mtime (get_time (video_mediaplayer s)) of
        Inl e \<Rightarrow> Raised e s
      | Inr time_video \<Rightarrow>
          (case addMSecs mtime (get_time (audio_mediaplayer s)) of
             Inl e \<Rightarrow> Raised e s
           | Inr time_audio \<Rightarrow>
               if is_playing (video_mediaplayer s) then
                 Returned (showMessage (''Video: '' @ toString time_video) s)
               else if is_playing (audio_mediaplayer s) then
                 Returned (showMessage (''Audio: '' @ toString time_audio) s)
               else Returned s))"

subsection \<open>\<^verbatim>\<open>update_ui\<close>, the poll tick\<close>

text \<open>\<^verbatim>\<open>data_queue.get(block=False)\<close> takes the oldest item, or finds the queue empty
  (\<^verbatim>\<open>queue.Empty\<close>, here \<open>None\<close>). \<^verbatim>\<open>put\<close> is the producer's side.\<close>

definition queue_get :: "mini_player \<Rightarrow> pyval option \<times> mini_player" where
  "queue_get s =
     (case data_queue s of
        [] \<Rightarrow> (None, emit QueueGet s)
      | v # q \<Rightarrow> (Some v, emit QueueGet (s\<lparr>data_queue := q\<rparr>)))"

definition queue_put :: "pyval \<Rightarrow> mini_player \<Rightarrow> mini_player" where
  "queue_put v s = s\<lparr>data_queue := data_queue s @ [v]\<rparr>"

definition update_ui :: "mini_player \<Rightarrow> mini_player outcome" where
  "update_ui s0 =
     (case update_statusbar s0 of
        Raised e s1 \<Rightarrow> Raised e s1
      | Returned s1 \<Rightarrow>
          (case queue_get s1 of
             (None, s2) \<Rightarrow> Returned s2
           | (Some val, s2) \<Rightarrow>
               (case py_int val of
                  Inl e \<Rightarrow> Raised e s2
                | Inr val \<Rightarrow>
                    let s3 = (if val \<noteq> get_time (video_mediaplayer s2) then set_time Video val s2 else s2);
                        s4 = (if val \<noteq> get_time (audio_mediaplayer s3) then set_time Audio val s3 else s3)
                    in Returned s4)))"

subsection \<open>\<^verbatim>\<open>__init__\<close>\<close>

text \<open>The constructor titles the window, shows \<^verbatim>\<open>Ready\<close>, creates the two empty
  players, opens the files and only then stores the queue it was given.\<close>

definition MiniPlayer_init :: "host \<Rightarrow> pyval list \<Rightarrow> mini_player" where
  "MiniPlayer_init h q =
     (let s0 = \<lparr>window_title = [], statusbar = [], store = [], video_media = None,
                audio_media = None, video_mediaplayer = media_player_new,
                audio_mediaplayer = media_player_new, data_queue = [], trace = []\<rparr>;
          s1 = setWindowTitle ''Mini Player'' s0;
          s2 = showMessage ''Ready'' s1;
          s3 = open_files h s2
      in s3\<lparr>data_queue := q\<rparr>)"

section \<open>Reading the trace\<close>

text \<open>The commands a step sent are the part of the trace it appended; the seeks among
  them are the \<^verbatim>\<open>set_time\<close> calls, with their player and target.\<close>

definition issued :: "mini_player \<Rightarrow> mini_player \<Rightarrow> event list" where
  "issued s s' = drop (length (trace s)) (trace s')"

fun seeks :: "event list \<Rightarrow> (track \<times> int) list" where
  "seeks [] = []"
| "seeks (SetTime k t # es) = (k, t) # seeks es"
| "seeks (e # es) = seeks es"

fun plays :: "event list \<Rightarrow> track list" where
  "plays [] = []"
| "plays (Play k # es) = k # plays es"
| "plays (e # es) = plays es"

section \<open>Sample windows and surroundings\<close>

text \<open>A window with given video position and playing flag, audio position and playing
  flag, and queue; a file chooser that answers with the two given file names (an empty
  name is a cancelled dialog); a desktop on a given platform.\<close>

definition window :: "int \<Rightarrow> bool \<Rightarrow> int \<Rightarrow> bool \<Rightarrow> pyval list \<Rightarrow> mini_player" where
  "window vt vp at ap q =
     \<lparr>window_title = ''Mini Player'', statusbar = ''Ready'', store = [], video_media = None,
      audio_media = None,
      video_mediaplayer = \<lparr>bound = None, surface = None, ptime = vt, playing = vp\<rparr>,
      audio_mediaplayer = \<lparr>bound = None, surface = None, ptime = at, playing = ap\<rparr>,
      data_queue = q, trace = []\<rparr>"

definition chooser :: "string \<Rightarrow> string \<Rightarrow> string \<Rightarrow> string \<times> string" where
  "chooser v a caption =
     (if caption = ''Choose Video File'' then (v, if v = [] then [] else ''All Files (*)'')
      else (a, if a = [] then [] else ''All Files (*)''))"

definition clip_meta :: "string \<Rightarrow> nat \<Rightarrow> string option" where
  "clip_meta path i = (if path = ''clip.mp4'' \<and> i = 0 then Some ''Clip'' else None)"

definition desktop :: "string \<Rightarrow> string \<Rightarrow> string \<Rightarrow> host" where
  "desktop os v a =
     \<lparr>getOpenFileName = chooser v a, platform_system = os, winId = 77, file_meta = clip_meta\<rparr>"

section \<open>Basic facts\<close>

lemma addMSecs_fits: "fits_c_int ms \<Longrightarrow> \<exists>t. addMSecs mds ms = Inr t"
  by (simp add: addMSecs_def Let_def)


lemma returned_state: "raised x = None \<Longrightarrow> x = Returned (state_of x)"
  by (cases x) simp_all

text \<open>The status refresh returns exactly when both positions fit a C \<^verbatim>\<open>int\<close>;
  otherwise it raises and leaves the window as it was.\<close>

lemma update_statusbar_Returned:
  assumes "addMSecs (QTime 0 0 0 0) (get_time (video_mediaplayer s)) = Inr time_video"
    and "addMSecs (QTime 0 0 0 0) (get_time (audio_mediaplayer s)) = Inr time_audio"
  shows "update_statusbar s = Returned
     (if is_playing (video_mediaplayer s) then showMessage (''Video: '' @ toString time_video) s
      else if is_playing (audio_mediaplayer s) then showMessage (''Audio: '' @ toString time_audio) s
      else s)"
  using assms by (simp add: update_statusbar_def Let_def)


lemma update_statusbar_fits:
  assumes "fits_c_int (get_time (video_mediaplayer s))"
    and "fits_c_int (get_time (audio_mediaplayer s))"
  shows "raised (update_statusbar s) = None"
proof -
  from assms obtain tv ta where
    "addMSecs (QTime 0 0 0 0) (get_time (video_mediaplayer s)) = Inr tv"
    "addMSecs (QTime 0 0 0 0) (get_time (audio_mediaplayer s)) = Inr ta"
    using addMSecs_fits by blast
  then show ?thesis
    by (simp add: update_statusbar_Returned)
qed

lemma update_statusbar_frame [simp]:
  "data_queue (state_of (update_statusbar s)) = data_queue s"
  "video_mediaplayer (state_of (update_statusbar s)) = video_mediaplayer s"
  "audio_mediaplayer (state_of (update_statusbar s)) = audio_mediaplayer s"
  "store (state_of (update_statusbar s)) = store s"
  "window_title (state_of (update_statusbar s)) = window_title s"
  "video_media (state_of (update_statusbar s)) = video_media s"
  "audio_media (state_of (update_statusbar s)) = audio_media s"
  by (simp_all add: update_statusbar_def showMessage_def emit_def Let_def split: sum.splits)

lemma update_statusbar_trace:
  "\<exists>es. trace (state_of (update_statusbar s)) = trace s @ es \<and> seeks es = [] \<and> plays es = []"
  by (simp add: update_statusbar_def showMessage_def emit_def Let_def split: sum.splits)

lemma issued_append: "trace s' = trace s @ es \<Longrightarrow> issued s s' = es"
  by (simp add: issued_def)

lemma seeks_append: "seeks (xs @ ys) = seeks xs @ seeks ys"
  by (induction xs rule: seeks.induct) simp_all

lemma plays_append: "plays (xs @ ys) = plays xs @ plays ys"
  by (induction xs rule: plays.induct) simp_all

lemma seeks_statusbar: "seeks (issued s (state_of (update_statusbar s))) = []"
  using update_statusbar_trace [of s] by (auto simp: issued_def)

lemma trace_statusbar:
  "trace (state_of (update_statusbar s)) = trace s @ issued s (state_of (update_statusbar s))"
  using update_statusbar_trace [of s] by (auto simp: issued_def)


lemma update_ui_empty:
  assumes "raised (update_statusbar s) = None" and "data_queue s = []"
  shows "update_ui s = Returned (emit QueueGet (state_of (update_statusbar s)))"
proof -
  from assms(1) obtain s1 where r: "update_statusbar s = Returned s1"
    by (cases "update_statusbar s") simp_all
  have "data_queue s1 = data_queue s"
    using update_statusbar_frame(1) [of s] by (simp add: r)
  with assms(2) show ?thesis
    by (simp add: update_ui_def r queue_get_def)
qed

lemma update_ui_raises:
  assumes "raised (update_statusbar s) = None" and "data_queue s = v # q" and "py_int v = Inl e"
  shows "update_ui s = Raised e (emit QueueGet ((state_of (update_statusbar s))\<lparr>data_queue := q\<rparr>))"
proof -
  from assms(1) obtain s1 where r: "update_statusbar s = Returned s1"
    by (cases "update_statusbar s") simp_all
  have "data_queue s1 = data_queue s"
    using update_statusbar_frame(1) [of s] by (simp add: r)
  with assms(2,3) show ?thesis
    by (simp add: update_ui_def r queue_get_def)
qed

lemma update_ui_item:
  assumes "raised (update_statusbar s) = None" and "data_queue s = v # q" and "py_int v = Inr t"
  shows "update_ui s = Returned
     ((state_of (update_statusbar s))
        \<lparr>video_mediaplayer := (video_mediaplayer s)\<lparr>ptime := t\<rparr>,
         audio_mediaplayer := (audio_mediaplayer s)\<lparr>ptime := t\<rparr>,
         data_queue := q,
         trace := trace (state_of (update_statusbar s)) @ QueueGet #
           (if t \<noteq> get_time (video_mediaplayer s) then [SetTime Video t] else []) @
           (if t \<noteq> get_time (audio_mediaplayer s) then [SetTime Audio t] else [])\<rparr>)"
proof -
  from assms(1) obtain s1 where r: "update_statusbar s = Returned s1"
    by (cases "update_statusbar s") simp_all
  have f: "data_queue s1 = data_queue s" "video_mediaplayer s1 = video_mediaplayer s"
    "audio_mediaplayer s1 = audio_mediaplayer s"
    using update_statusbar_frame(1-3) [of s] by (simp_all add: r)
  with assms(2,3) show ?thesis
    by (simp add: update_ui_def r queue_get_def Let_def set_time_def emit_def get_time_def)
qed

lemma update_ui_item_issued:
  assumes "raised (update_statusbar s) = None" and "data_queue s = v # q" and "py_int v = Inr t"
  shows "issued s (state_of (update_ui s)) =
     issued s (state_of (update_statusbar s)) @ QueueGet #
       (if t \<noteq> get_time (video_mediaplayer s) then [SetTime Video t] else []) @
       (if t \<noteq> get_time (audio_mediaplayer s) then [SetTime Audio t] else [])"
  by (rule issued_append) (simp add: update_ui_item [OF assms] trace_statusbar [of s, symmetric])

lemma update_ui_item_seeks:
  assumes "raised (update_statusbar s) = None" and "data_queue s = v # q" and "py_int v = Inr t"
  shows "seeks (issued s (state_of (update_ui s))) =
       (if t \<noteq> get_time (video_mediaplayer s) then [(Video, t)] else []) @
       (if t \<noteq> get_time (audio_mediaplayer s) then [(Audio, t)] else [])"
  by (simp add: update_ui_item_issued [OF assms] seeks_append seeks_statusbar)



subsection \<open>Opening the files, step by step\<close>

lemma open_files_steps:
  assumes "fst (getOpenFileName h ''Choose Video File'') = v" and "v \<noteq> []"
    and "fst (getOpenFileName h ''Choose Audio File'') = a" and "a \<noteq> []"
  shows "open_files h s =
    (let s2 = emit (GetOpenFileName ''Choose Audio File'') (emit (GetOpenFileName ''Choose Video File'') s);
         s3 = (snd (media_new Video v s2))\<lparr>video_media := Some (fst (media_new Video v s2))\<rparr>;
         s4 = (snd (media_new Audio a s3))\<lparr>audio_media := Some (fst (media_new Audio a s3))\<rparr>;
         s5 = set_media Video (video_media s4) s4;
         s6 = set_media Audio (audio_media s5) s5;
         s7 = parse Video (video_media s6) s6;
         s8 = parse Audio (audio_media s7) s7;
         s9 = setWindowTitle (py_format (get_meta h s8 (video_media s8) 0)) s8
     in play Audio (play Video (attach h s9)))"
  by (simp only: open_files_def Let_def split_def assms if_False)

lemma open_files_loaded:
  assumes v: "fst (getOpenFileName h ''Choose Video File'') = v" "v \<noteq> []"
    and a: "fst (getOpenFileName h ''Choose Audio File'') = a" "a \<noteq> []"
  shows "open_files h s =
     play Audio (play Video (attach h
       (s\<lparr>video_media := Some (length (store s)),
          audio_media := Some (Suc (length (store s))),
          video_mediaplayer := (video_mediaplayer s)\<lparr>bound := Some (length (store s))\<rparr>,
          audio_mediaplayer := (audio_mediaplayer s)\<lparr>bound := Some (Suc (length (store s)))\<rparr>,
          store := store s @ [\<lparr>mrl = v, parsed = True\<rparr>, \<lparr>mrl = a, parsed = True\<rparr>],
          window_title := py_format (file_meta h v 0),
          trace := trace s @
            [GetOpenFileName ''Choose Video File'', GetOpenFileName ''Choose Audio File'',
             MediaNew Video v, MediaNew Audio a, SetMedia Video, SetMedia Audio,
             Parse Video, Parse Audio, SetWindowTitle (py_format (file_meta h v 0))]\<rparr>)))"
proof -
  define s2 where "s2 = emit (GetOpenFileName ''Choose Audio File'')
    (emit (GetOpenFileName ''Choose Video File'') s)"
  define s3 where "s3 = (snd (media_new Video v s2))\<lparr>video_media := Some (fst (media_new Video v s2))\<rparr>"
  define s4 where "s4 = (snd (media_new Audio a s3))\<lparr>audio_media := Some (fst (media_new Audio a s3))\<rparr>"
  define s5 where "s5 = set_media Video (video_media s4) s4"
  define s6 where "s6 = set_media Audio (audio_media s5) s5"
  define s7 where "s7 = parse Video (video_media s6) s6"
  define s8 where "s8 = parse Audio (audio_media s7) s7"
  define s9 where "s9 = setWindowTitle (py_format (get_meta h s8 (video_media s8) 0)) s8"
  have open_eq: "open_files h s = play Audio (play Video (attach h s9))"
    using open_files_steps [OF v a, of s]
    unfolding Let_def s9_def s8_def s7_def s6_def s5_def s4_def s3_def s2_def .
  have e2: "s2 = s\<lparr>trace := trace s @
      [GetOpenFileName ''Choose Video File'', GetOpenFileName ''Choose Audio File'']\<rparr>"
    by (simp add: s2_def emit_def)
  have e3: "s3 = s\<lparr>video_media := Some (length (store s)),
      store := store s @ [\<lparr>mrl = v, parsed = False\<rparr>],
      trace := trace s @
        [GetOpenFileName ''Choose Video File'', GetOpenFileName ''Choose Audio File'',
         MediaNew Video v]\<rparr>"
    by (simp add: s3_def e2 media_new_def emit_def)
  have e4: "s4 = s\<lparr>video_media := Some (length (store s)),
      audio_media := Some (Suc (length (store s))),
      store := store s @ [\<lparr>mrl = v, parsed = False\<rparr>, \<lparr>mrl = a, parsed = False\<rparr>],
      trace := trace s @
        [GetOpenFileName ''Choose Video File'', GetOpenFileName ''Choose Audio File'',
         MediaNew Video v, MediaNew Audio a]\<rparr>"
    by (simp add: s4_def e3 media_new_def emit_def)
  have e5: "s5 = s\<lparr>video_media := Some (length (store s)),
      audio_media := Some (Suc (length (store s))),
      video_mediaplayer := (video_mediaplayer s)\<lparr>bound := Some (length (store s))\<rparr>,
      store := store s @ [\<lparr>mrl = v, parsed = False\<rparr>, \<lparr>mrl = a, parsed = False\<rparr>],
      trace := trace s @
        [GetOpenFileName ''Choose Video File'', GetOpenFileName ''Choose Audio File'',
         MediaNew Video v, MediaNew Audio a, SetMedia Video]\<rparr>"
    by (simp add: s5_def e4 set_media_def emit_def)
  have e6: "s6 = s\<lparr>video_media := Some (length (store s)),
      audio_media := Some (Suc (length (store s))),
      video_mediaplayer := (video_mediaplayer s)\<lparr>bound := Some (length (store s))\<rparr>,
      audio_mediaplayer := (audio_mediaplayer s)\<lparr>bound := Some (Suc (length (store s)))\<rparr>,
      store := store s @ [\<lparr>mrl = v, parsed = False\<rparr>, \<lparr>mrl = a, parsed = False\<rparr>],
      trace := trace s @
        [GetOpenFileName ''Choose Video File'', GetOpenFileName ''Choose Audio File'',
         MediaNew Video v, MediaNew Audio a, SetMedia Video, SetMedia Audio]\<rparr>"
    by (simp add: s6_def e5 set_media_def emit_def)
  have e7: "s7 = s\<lparr>video_media := Some (length (store s)),
      audio_media := Some (Suc (length (store s))),
      video_mediaplayer := (video_mediaplayer s)\<lparr>bound := Some (length (store s))\<rparr>,
      audio_mediaplayer := (audio_mediaplayer s)\<lparr>bound := Some (Suc (length (store s)))\<rparr>,
      store := store s @ [\<lparr>mrl = v, parsed = True\<rparr>, \<lparr>mrl = a, parsed = False\<rparr>],
      trace := trace s @
        [GetOpenFileName ''Choose Video File'', GetOpenFileName ''Choose Audio File'',
         MediaNew Video v, MediaNew Audio a, SetMedia Video, SetMedia Audio, Parse Video]\<rparr>"
    by (simp add: s7_def e6 parse_def emit_def nth_append list_update_append)
  have e8: "s8 = s\<lparr>video_media := Some (length (store s)),
      audio_media := Some (Suc (length (store s))),
      video_mediaplayer := (video_mediaplayer s)\<lparr>bound := Some (length (store s))\<rparr>,
      audio_mediaplayer := (audio_mediaplayer s)\<lparr>bound := Some (Suc (length (store s)))\<rparr>,
      store := store s @ [\<lparr>mrl = v, parsed = True\<rparr>, \<lparr>mrl = a, parsed = True\<rparr>],
      trace := trace s @
        [GetOpenFileName ''Choose Video File'', GetOpenFileName ''Choose Audio File'',
         MediaNew Video v, MediaNew Audio a, SetMedia Video, SetMedia Audio, Parse Video,
         Parse Audio]\<rparr>"
    by (simp add: s8_def e7 parse_def emit_def nth_append list_update_append)
  have meta: "get_meta h s8 (video_media s8) 0 = file_meta h v 0"
    by (simp add: e8 get_meta_def nth_append)
  have e9: "s9 = s\<lparr>video_media := Some (length (store s)),
      audio_media := Some (Suc (length (store s))),
      video_mediaplayer := (video_mediaplayer s)\<lparr>bound := Some (length (store s))\<rparr>,
      audio_mediaplayer := (audio_mediaplayer s)\<lparr>bound := Some (Suc (length (store s)))\<rparr>,
      store := store s @ [\<lparr>mrl = v, parsed = True\<rparr>, \<lparr>mrl = a, parsed = True\<rparr>],
      window_title := py_format (file_meta h v 0),
      trace := trace s @
        [GetOpenFileName ''Choose Video File'', GetOpenFileName ''Choose Audio File'',
         MediaNew Video v, MediaNew Audio a, SetMedia Video, SetMedia Audio,
         Parse Video, Parse Audio, SetWindowTitle (py_format (file_meta h v 0))]\<rparr>"
    unfolding s9_def meta by (simp add: e8 setWindowTitle_def emit_def)
  show ?thesis
    unfolding open_eq e9 ..
qed

lemma open_files_cancel_video:
  "fst (getOpenFileName h ''Choose Video File'') = [] \<Longrightarrow>
   open_files h s = emit (GetOpenFileName ''Choose Video File'') s"
  by (simp add: open_files_def Let_def)

lemma open_files_cancel_audio:
  "fst (getOpenFileName h ''Choose Video File'') \<noteq> [] \<Longrightarrow>
   fst (getOpenFileName h ''Choose Audio File'') = [] \<Longrightarrow>
   open_files h s =
     emit (GetOpenFileName ''Choose Audio File'') (emit (GetOpenFileName ''Choose Video File'') s)"
  by (simp add: open_files_def Let_def)

lemma open_files_cancelled:
  assumes "fst (getOpenFileName h ''Choose Video File'') = [] \<or>
           fst (getOpenFileName h ''Choose Audio File'') = []"
  shows "open_files h s = s\<lparr>trace := trace s @
     (if fst (getOpenFileName h ''Choose Video File'') = []
      then [GetOpenFileName ''Choose Video File'']
      else [GetOpenFileName ''Choose Video File'', GetOpenFileName ''Choose Audio File''])\<rparr>"
proof (cases "fst (getOpenFileName h ''Choose Video File'') = []")
  case True
  then show ?thesis by (simp add: open_files_cancel_video emit_def)
next
  case False
  with assms show ?thesis by (simp add: open_files_cancel_audio emit_def)
qed

lemma attach_frame:
  "window_title (attach h s) = window_title s"
  "store (attach h s) = store s"
  "video_media (attach h s) = video_media s"
  "audio_media (attach h s) = audio_media s"
  "bound (video_mediaplayer (attach h s)) = bound (video_mediaplayer s)"
  "bound (audio_mediaplayer (attach h s)) = bound (audio_mediaplayer s)"
  "playing (video_mediaplayer (attach h s)) = playing (video_mediaplayer s)"
  "playing (audio_mediaplayer (attach h s)) = playing (audio_mediaplayer s)"
  by (simp_all add: attach_def set_xwindow_def set_hwnd_def set_nsobject_def emit_def)

lemma attach_surface:
  "surface (video_mediaplayer (attach h s)) =
     (if platform_system h = ''Linux'' then Some (XWindow (winId h))
      else if platform_system h = ''Windows'' then Some (Hwnd (winId h))
      else if platform_system h = ''Darwin'' then Some (NsObject (winId h))
      else surface (video_mediaplayer s))"
  "surface (audio_mediaplayer (attach h s)) =
     (if platform_system h = ''Linux'' then Some (XWindow (winId h))
      else if platform_system h = ''Windows'' then Some (Hwnd (winId h))
      else if platform_system h = ''Darwin'' then Some (NsObject (winId h))
      else surface (audio_mediaplayer s))"
  by (simp_all add: attach_def set_xwindow_def set_hwnd_def set_nsobject_def emit_def)

lemma attach_trace:
  "trace (attach h s) = trace s @
     (if platform_system h = ''Linux'' then [SetXWindow Video (winId h), SetXWindow Audio (winId h)]
      else if platform_system h = ''Windows'' then [SetHwnd Video (winId h), SetHwnd Audio (winId h)]
      else if platform_system h = ''Darwin'' then [SetNsObject Video (winId h), SetNsObject Audio (winId h)]
      else [])"
  by (simp add: attach_def set_xwindow_def set_hwnd_def set_nsobject_def emit_def)

lemma play_frame:
  "window_title (play k s) = window_title s"
  "store (play k s) = store s"
  "video_media (play k s) = video_media s"
  "audio_media (play k s) = audio_media s"
  "bound (video_mediaplayer (play k s)) = bound (video_mediaplayer s)"
  "bound (audio_mediaplayer (play k s)) = bound (audio_mediaplayer s)"
  "surface (video_mediaplayer (play k s)) = surface (video_mediaplayer s)"
  "surface (audio_mediaplayer (play k s)) = surface (audio_mediaplayer s)"
  "trace (play k s) = trace s @ [Play k]"
  by (cases k; simp add: play_def emit_def)+

lemma play_playing:
  "playing (video_mediaplayer (play k s)) = (k = Video \<or> playing (video_mediaplayer s))"
  "playing (audio_mediaplayer (play k s)) = (k = Audio \<or> playing (audio_mediaplayer s))"
  by (cases k; simp add: play_def emit_def)+

section \<open>The poll tick\<close>

text \<open>
  The theorems of this section are about ticks whose status refresh returns, that is,
  ticks that start with both positions inside the C \<^verbatim>\<open>int\<close> range; any other tick
  raises \<^verbatim>\<open>OverflowError\<close> before it polls the queue and changes nothing
  (\<open>update_ui_overflow\<close>).
\<close>

text \<open>
  Claim C1. When a tick takes an item from the queue and \<^verbatim>\<open>int()\<close> makes the
  timestamp \<open>t\<close> of it, the tick returns normally, the seeks it sends are exactly a
  seek of the video player to \<open>t\<close> if the video position differs from \<open>t\<close>, followed by a
  seek of the audio player to \<open>t\<close> if the audio position differs from \<open>t\<close>, and both
  positions read \<open>t\<close> afterwards. Each decision looks at its own player's position only.
  An item is taken only by a tick whose status refresh returned, so both positions fit a
  C \<^verbatim>\<open>int\<close>.
\<close>

theorem tick_seeks_each_player_iff_differs:
  assumes "fits_c_int (get_time (video_mediaplayer s))"
    and "fits_c_int (get_time (audio_mediaplayer s))"
    and "data_queue s = v # q" and "py_int v = Inr t"
  shows "raised (update_ui s) = None \<and>
    seeks (issued s (state_of (update_ui s))) =
      (if get_time (video_mediaplayer s) \<noteq> t then [(Video, t)] else []) @
      (if get_time (audio_mediaplayer s) \<noteq> t then [(Audio, t)] else []) \<and>
    get_time (video_mediaplayer (state_of (update_ui s))) = t \<and>
    get_time (audio_mediaplayer (state_of (update_ui s))) = t"
proof -
  note r = update_statusbar_fits [OF assms(1,2)]
  have "seeks (issued s (state_of (update_ui s))) =
      (if get_time (video_mediaplayer s) \<noteq> t then [(Video, t)] else []) @
      (if get_time (audio_mediaplayer s) \<noteq> t then [(Audio, t)] else [])"
    using update_ui_item_seeks [OF r assms(3,4)] by auto
  moreover have "raised (update_ui s) = None"
    by (simp add: update_ui_item [OF r assms(3,4)])
  moreover have "get_time (video_mediaplayer (state_of (update_ui s))) = t"
    and "get_time (audio_mediaplayer (state_of (update_ui s))) = t"
    by (simp_all add: update_ui_item [OF r assms(3,4)] get_time_def)
  ultimately show ?thesis by simp
qed

theorem tick_seeks_each_player_iff_differs_witness:
  "fits_c_int (get_time (video_mediaplayer (window 5000 True 0 True [PInt 5000]))) \<and>
   fits_c_int (get_time (audio_mediaplayer (window 5000 True 0 True [PInt 5000]))) \<and>
   data_queue (window 5000 True 0 True [PInt 5000]) = PInt 5000 # [] \<and>
   py_int (PInt 5000) = Inr 5000 \<and>
   get_time (video_mediaplayer (window 5000 True 0 True [PInt 5000])) = 5000 \<and>
   get_time (audio_mediaplayer (window 5000 True 0 True [PInt 5000])) = 0 \<and>
   seeks (issued (window 5000 True 0 True [PInt 5000])
            (state_of (update_ui (window 5000 True 0 True [PInt 5000])))) = [(Audio, 5000)]"
  using tick_seeks_each_player_iff_differs
          [of "window 5000 True 0 True [PInt 5000]" "PInt 5000" "[]" 5000]
  by (simp add: window_def get_time_def fits_c_int_def)

text \<open>
  Claim C2. A tick that finds the queue empty (so its status refresh returned: both
  positions fit a C \<^verbatim>\<open>int\<close>) returns normally, sends no seek, and leaves both player
  handles (so both positions) and the empty queue as they were.
\<close>

theorem tick_on_empty_queue_is_noop:
  assumes "fits_c_int (get_time (video_mediaplayer s))"
    and "fits_c_int (get_time (audio_mediaplayer s))"
    and "data_queue s = []"
  shows "raised (update_ui s) = None \<and>
    seeks (issued s (state_of (update_ui s))) = [] \<and>
    video_mediaplayer (state_of (update_ui s)) = video_mediaplayer s \<and>
    audio_mediaplayer (state_of (update_ui s)) = audio_mediaplayer s \<and>
    data_queue (state_of (update_ui s)) = []"
proof -
  note r = update_statusbar_fits [OF assms(1,2)]
  have "trace (state_of (update_ui s)) =
      trace s @ issued s (state_of (update_statusbar s)) @ [QueueGet]"
    by (simp add: update_ui_empty [OF r assms(3)] emit_def trace_statusbar [of s, symmetric])
  from issued_append [OF this]
  have "seeks (issued s (state_of (update_ui s))) = []"
    by (simp add: seeks_append seeks_statusbar)
  then show ?thesis
    using assms(3) by (simp add: update_ui_empty [OF r assms(3)] emit_def)
qed

theorem tick_on_empty_queue_is_noop_witness:
  "fits_c_int (get_time (video_mediaplayer (window 1000 True 1200 True []))) \<and>
   fits_c_int (get_time (audio_mediaplayer (window 1000 True 1200 True []))) \<and>
   data_queue (window 1000 True 1200 True []) = [] \<and>
   raised (update_ui (window 1000 True 1200 True [])) = None \<and>
   seeks (issued (window 1000 True 1200 True []) (state_of (update_ui (window 1000 True 1200 True [])))) = [] \<and>
   get_time (video_mediaplayer (state_of (update_ui (window 1000 True 1200 True [])))) = 1000 \<and>
   get_time (audio_mediaplayer (state_of (update_ui (window 1000 True 1200 True [])))) = 1200"
  using tick_on_empty_queue_is_noop [of "window 1000 True 1200 True []"]
  by (simp add: window_def get_time_def fits_c_int_def)



text \<open>
  Claim C6. When a tick takes an item that \<^verbatim>\<open>int()\<close> turns into \<open>t\<close> (its status
  refresh returned: both positions fit a C \<^verbatim>\<open>int\<close>), the seeks it sends to the video
  player are none if the video position equals \<open>t\<close> and exactly one, to \<open>t\<close>, in every
  other case: equality is the only thing that suppresses the seek, and a position one
  millisecond off is sought like any other.
\<close>

theorem video_seek_suppressed_only_by_equality:
  assumes "fits_c_int (get_time (video_mediaplayer s))"
    and "fits_c_int (get_time (audio_mediaplayer s))"
    and "data_queue s = v # q" and "py_int v = Inr t"
  shows "filter (\<lambda>x. fst x = Video) (seeks (issued s (state_of (update_ui s)))) =
    (if get_time (video_mediaplayer s) = t then [] else [(Video, t)])"
  by (simp add: update_ui_item_seeks [OF update_statusbar_fits [OF assms(1,2)] assms(3,4)])

theorem video_seek_suppressed_only_by_equality_witness:
  "fits_c_int 5000 \<and> fits_c_int 4999 \<and> fits_c_int 5001 \<and> fits_c_int 0 \<and>
   py_int (PInt 5000) = Inr 5000 \<and>
   filter (\<lambda>x. fst x = Video)
     (seeks (issued (window 5000 True 0 True [PInt 5000])
        (state_of (update_ui (window 5000 True 0 True [PInt 5000]))))) = [] \<and>
   filter (\<lambda>x. fst x = Video)
     (seeks (issued (window 4999 True 0 True [PInt 5000])
        (state_of (update_ui (window 4999 True 0 True [PInt 5000]))))) = [(Video, 5000)] \<and>
   filter (\<lambda>x. fst x = Video)
     (seeks (issued (window 5001 True 0 True [PInt 5000])
        (state_of (update_ui (window 5001 True 0 True [PInt 5000]))))) = [(Video, 5000)]"
  using video_seek_suppressed_only_by_equality [of "window 5000 True 0 True [PInt 5000]" "PInt 5000" "[]" 5000]
    video_seek_suppressed_only_by_equality [of "window 4999 True 0 True [PInt 5000]" "PInt 5000" "[]" 5000]
    video_seek_suppressed_only_by_equality [of "window 5001 True 0 True [PInt 5000]" "PInt 5000" "[]" 5000]
  by (simp add: window_def get_time_def fits_c_int_def)

text \<open>
  Claim C8. From both positions \<open>0\<close> and the queue \<open>[5000]\<close>, one tick seeks both players
  to \<open>5000\<close> and both positions read \<open>5000\<close> afterwards; when \<open>5000\<close> is then queued again,
  the next tick takes it from the queue and sends no seek. More generally, a tick that
  takes \<open>5000\<close> while both positions are \<open>5000\<close> sends no seek and leaves the positions.
\<close>

theorem two_ticks_to_5000:
  fixes s r :: mini_player
  defines "s1 \<equiv> state_of (update_ui s)"
  defines "s2 \<equiv> queue_put (PInt 5000) s1"
  defines "s3 \<equiv> state_of (update_ui s2)"
  defines "r1 \<equiv> state_of (update_ui r)"
  shows "(get_time (video_mediaplayer s) = 0 \<and> get_time (audio_mediaplayer s) = 0 \<and>
      data_queue s = [PInt 5000] \<longrightarrow>
        seeks (issued s s1) = [(Video, 5000), (Audio, 5000)] \<and>
        get_time (video_mediaplayer s1) = 5000 \<and> get_time (audio_mediaplayer s1) = 5000 \<and>
        data_queue s1 = [] \<and> data_queue s2 = [PInt 5000] \<and>
        raised (update_ui s2) = None \<and> data_queue s3 = [] \<and> seeks (issued s2 s3) = [] \<and>
        get_time (video_mediaplayer s3) = 5000 \<and> get_time (audio_mediaplayer s3) = 5000) \<and>
    (get_time (video_mediaplayer r) = 5000 \<and> get_time (audio_mediaplayer r) = 5000 \<and>
      data_queue r = PInt 5000 # q \<longrightarrow>
        seeks (issued r r1) = [] \<and> data_queue r1 = q \<and>
        get_time (video_mediaplayer r1) = 5000 \<and> get_time (audio_mediaplayer r1) = 5000)"
proof -
  have same: "seeks (issued x (state_of (update_ui x))) = [] \<and>
      raised (update_ui x) = None \<and>
      data_queue (state_of (update_ui x)) = q' \<and>
      get_time (video_mediaplayer (state_of (update_ui x))) = 5000 \<and>
      get_time (audio_mediaplayer (state_of (update_ui x))) = 5000"
    if "get_time (video_mediaplayer x) = 5000" "get_time (audio_mediaplayer x) = 5000"
      "data_queue x = PInt 5000 # q'" for x q'
  proof -
    have c: "py_int (PInt 5000) = Inr 5000" by simp
    have r: "raised (update_statusbar x) = None"
      by (rule update_statusbar_fits) (simp_all add: that fits_c_int_def)
    show ?thesis
      using that update_ui_item_seeks [OF r that(3) c]
      by (simp add: update_ui_item [OF r that(3) c] get_time_def)
  qed
  have first: "seeks (issued s s1) = [(Video, 5000), (Audio, 5000)] \<and>
      get_time (video_mediaplayer s1) = 5000 \<and> get_time (audio_mediaplayer s1) = 5000 \<and>
      data_queue s1 = []"
    if "get_time (video_mediaplayer s) = 0" "get_time (audio_mediaplayer s) = 0"
      "data_queue s = [PInt 5000]"
  proof -
    have c: "py_int (PInt 5000) = Inr 5000" by simp
    have r: "raised (update_statusbar s) = None"
      by (rule update_statusbar_fits) (simp_all add: that fits_c_int_def)
    show ?thesis
      unfolding s1_def
      using that update_ui_item_seeks [OF r that(3) c]
      by (simp add: update_ui_item [OF r that(3) c] get_time_def)
  qed
  have second: "data_queue s2 = [PInt 5000] \<and> raised (update_ui s2) = None \<and>
      data_queue s3 = [] \<and> seeks (issued s2 s3) = [] \<and>
      get_time (video_mediaplayer s3) = 5000 \<and> get_time (audio_mediaplayer s3) = 5000"
    if "get_time (video_mediaplayer s1) = 5000" "get_time (audio_mediaplayer s1) = 5000"
      "data_queue s1 = []"
  proof -
    have q2: "data_queue s2 = PInt 5000 # []"
      and "get_time (video_mediaplayer s2) = 5000" "get_time (audio_mediaplayer s2) = 5000"
      using that by (simp_all add: s2_def queue_put_def get_time_def)
    from same [OF this(2,3) q2] q2 show ?thesis
      by (simp add: s3_def)
  qed
  from first second same [of r q] show ?thesis
    by (simp add: r1_def)
qed

theorem two_ticks_to_5000_witness:
  "get_time (video_mediaplayer (window 0 True 0 True [PInt 5000])) = 0 \<and>
   get_time (audio_mediaplayer (window 0 True 0 True [PInt 5000])) = 0 \<and>
   data_queue (window 0 True 0 True [PInt 5000]) = [PInt 5000] \<and>
   get_time (video_mediaplayer (state_of (update_ui (window 0 True 0 True [PInt 5000])))) = 5000 \<and>
   get_time (audio_mediaplayer (state_of (update_ui (window 0 True 0 True [PInt 5000])))) = 5000 \<and>
   seeks (issued (queue_put (PInt 5000) (state_of (update_ui (window 0 True 0 True [PInt 5000]))))
     (state_of (update_ui (queue_put (PInt 5000)
        (state_of (update_ui (window 0 True 0 True [PInt 5000]))))))) = [] \<and>
   get_time (video_mediaplayer (window 5000 True 5000 True [PInt 5000, PInt 5000])) = 5000 \<and>
   get_time (audio_mediaplayer (window 5000 True 5000 True [PInt 5000, PInt 5000])) = 5000 \<and>
   data_queue (window 5000 True 5000 True [PInt 5000, PInt 5000]) = PInt 5000 # [PInt 5000] \<and>
   seeks (issued (window 5000 True 5000 True [PInt 5000, PInt 5000])
     (state_of (update_ui (window 5000 True 5000 True [PInt 5000, PInt 5000])))) = [] \<and>
   data_queue (state_of (update_ui (window 5000 True 5000 True [PInt 5000, PInt 5000]))) = [PInt 5000]"
  using two_ticks_to_5000 [of "window 0 True 0 True [PInt 5000]"
      "window 5000 True 5000 True [PInt 5000, PInt 5000]" "[PInt 5000]"]
  by (simp add: window_def get_time_def)

text \<open>
  Claim C9, as stated, fails where a position already equals the item: with both
  handles at \<open>-1\<close> (as they are without media) and the negative integer \<open>-1\<close> in the queue,
  the tick takes the item and sends no \<^verbatim>\<open>set_time\<close> to either player.
\<close>

theorem negative_item_equal_to_position_is_not_sought:
  "data_queue (window (- 1) False (- 1) False [PInt (- 1)]) = [PInt (- 1)] \<and>
   py_int (PInt (- 1)) = Inr (- 1) \<and>
   raised (update_ui (window (- 1) False (- 1) False [PInt (- 1)])) = None \<and>
   issued (window (- 1) False (- 1) False [PInt (- 1)])
     (state_of (update_ui (window (- 1) False (- 1) False [PInt (- 1)]))) = [QueueGet] \<and>
   seeks (issued (window (- 1) False (- 1) False [PInt (- 1)])
     (state_of (update_ui (window (- 1) False (- 1) False [PInt (- 1)])))) = []"
proof -
  let ?w = "window (- 1) False (- 1) False [PInt (- 1)]"
  have r: "raised (update_statusbar ?w) = None"
    by (rule update_statusbar_fits) (simp_all add: window_def get_time_def fits_c_int_def)
  have q: "data_queue ?w = PInt (- 1) # []" by (simp add: window_def)
  have c: "py_int (PInt (- 1)) = Inr (- 1)" by simp
  have pos: "get_time (video_mediaplayer ?w) = - 1" "get_time (audio_mediaplayer ?w) = - 1"
    by (simp_all add: window_def get_time_def)
  have idle: "issued ?w (state_of (update_statusbar ?w)) = []"
    by (rule issued_append)
      (simp add: update_statusbar_Returned [of ?w]
        update_statusbar_def Let_def addMSecs_def fits_c_int_def window_def get_time_def
        is_playing_def)
  have "issued ?w (state_of (update_ui ?w)) = [QueueGet]"
    using update_ui_item_issued [OF r q c] by (simp add: pos idle)
  moreover have "raised (update_ui ?w) = None"
    by (simp add: update_ui_item [OF r q c])
  ultimately show ?thesis using q c by simp
qed

text \<open>
  Claim C9, amended. A tick that takes an item (its status refresh returned: both
  positions fit a C \<^verbatim>\<open>int\<close>) puts the item through \<^verbatim>\<open>int()\<close> and nothing else: if
  \<^verbatim>\<open>int()\<close> raises, the tick raises that exception and sends no seek; if it yields \<open>t\<close>,
  the tick sends \<open>t\<close> as it is, whatever its sign or size, to \<^verbatim>\<open>set_time\<close> of the video
  player if the video position differs from \<open>t\<close> and then to \<^verbatim>\<open>set_time\<close> of the audio
  player if the audio position differs from \<open>t\<close>; a player already at \<open>t\<close> gets no call. An
  integer item is its own \<open>t\<close>, negative or not.
\<close>

theorem tick_coerces_and_never_validates:
  assumes "fits_c_int (get_time (video_mediaplayer s))"
    and "fits_c_int (get_time (audio_mediaplayer s))"
    and "data_queue s = v # q"
  shows "(case py_int v of
       Inl e \<Rightarrow> raised (update_ui s) = Some e \<and> seeks (issued s (state_of (update_ui s))) = []
     | Inr t \<Rightarrow> raised (update_ui s) = None \<and>
         seeks (issued s (state_of (update_ui s))) =
           (if t \<noteq> get_time (video_mediaplayer s) then [(Video, t)] else []) @
           (if t \<noteq> get_time (audio_mediaplayer s) then [(Audio, t)] else [])) \<and>
    py_int (PInt n) = Inr n"
proof (cases "py_int v")
  case (Inl e)
  note r = update_statusbar_fits [OF assms(1,2)]
  have "trace (state_of (update_ui s)) =
      trace s @ issued s (state_of (update_statusbar s)) @ [QueueGet]"
    by (simp add: update_ui_raises [OF r assms(3) Inl] emit_def trace_statusbar [of s, symmetric])
  from issued_append [OF this]
  have "seeks (issued s (state_of (update_ui s))) = []"
    by (simp add: seeks_append seeks_statusbar)
  with Inl show ?thesis
    by (simp add: update_ui_raises [OF r assms(3) Inl])
next
  case (Inr t)
  note r = update_statusbar_fits [OF assms(1,2)]
  from Inr update_ui_item_seeks [OF r assms(3) Inr] show ?thesis
    by (simp add: update_ui_item [OF r assms(3) Inr])
qed

theorem tick_coerces_and_never_validates_witness:
  "fits_c_int (get_time (video_mediaplayer (window 0 True 0 True [PInt (- 7)]))) \<and>
   fits_c_int (get_time (audio_mediaplayer (window 0 True 0 True [PInt (- 7)]))) \<and>
   seeks (issued (window 0 True 0 True [PInt (- 7)])
     (state_of (update_ui (window 0 True 0 True [PInt (- 7)])))) = [(Video, - 7), (Audio, - 7)] \<and>
   seeks (issued (window 0 True (- 7) True [PInt (- 7)])
     (state_of (update_ui (window 0 True (- 7) True [PInt (- 7)])))) = [(Video, - 7)] \<and>
   seeks (issued (window 0 True 0 True [PStr '' -4_2'', PInt 1])
     (state_of (update_ui (window 0 True 0 True [PStr '' -4_2'', PInt 1])))) = [(Video, - 42), (Audio, - 42)] \<and>
   seeks (issued (window 0 True 0 True [PFloat (Finite (- 5) (- 1))])
     (state_of (update_ui (window 0 True 0 True [PFloat (Finite (- 5) (- 1))])))) = [(Video, - 2), (Audio, - 2)] \<and>
   raised (update_ui (window 0 True 0 True [PStr ''soon''])) = Some ValueError \<and>
   raised (update_ui (window 0 True 0 True [PNone])) = Some TypeError"
proof -
  have c: "int_of_str '' -4_2'' = Inr (- 42)" "int_of_finite (- 5) (- 1) = - 2"
    "int_of_str ''soon'' = Inl ValueError"
    by code_simp+
  show ?thesis
    using tick_coerces_and_never_validates [of "window 0 True 0 True [PInt (- 7)]" "PInt (- 7)" "[]"]
      tick_coerces_and_never_validates [of "window 0 True (- 7) True [PInt (- 7)]" "PInt (- 7)" "[]"]
      tick_coerces_and_never_validates [of "window 0 True 0 True [PStr '' -4_2'', PInt 1]" "PStr '' -4_2''" "[PInt 1]"]
      tick_coerces_and_never_validates [of "window 0 True 0 True [PFloat (Finite (- 5) (- 1))]" "PFloat (Finite (- 5) (- 1))" "[]"]
      tick_coerces_and_never_validates [of "window 0 True 0 True [PStr ''soon'']" "PStr ''soon''" "[]"]
      tick_coerces_and_never_validates [of "window 0 True 0 True [PNone]" "PNone" "[]"]
    by (simp add: window_def get_time_def fits_c_int_def c)
qed

section \<open>The status line\<close>





section \<open>Opening the files\<close>

text \<open>
  Claim C4. If the video dialog or the audio dialog is cancelled (returns an empty file
  name), \<^verbatim>\<open>open_files\<close> changes nothing but the trace, and the only commands it sent are
  the dialogs themselves (the video dialog alone when that one was cancelled): both player
  handles, both media attributes, the media store and the window title are as before, and
  no play command was sent. In a window built by the constructor both handles are then
  still unbound and the title is still the constructor's.
\<close>

theorem open_files_cancelled_leaves_state:
  assumes "fst (getOpenFileName h ''Choose Video File'') = [] \<or>
           fst (getOpenFileName h ''Choose Audio File'') = []"
  shows "video_mediaplayer (open_files h s) = video_mediaplayer s \<and>
    audio_mediaplayer (open_files h s) = audio_mediaplayer s \<and>
    video_media (open_files h s) = video_media s \<and>
    audio_media (open_files h s) = audio_media s \<and>
    store (open_files h s) = store s \<and>
    window_title (open_files h s) = window_title s \<and>
    issued s (open_files h s) =
      (if fst (getOpenFileName h ''Choose Video File'') = []
       then [GetOpenFileName ''Choose Video File'']
       else [GetOpenFileName ''Choose Video File'', GetOpenFileName ''Choose Audio File'']) \<and>
    plays (issued s (open_files h s)) = [] \<and>
    bound (video_mediaplayer (MiniPlayer_init h q)) = None \<and>
    bound (audio_mediaplayer (MiniPlayer_init h q)) = None \<and>
    video_media (MiniPlayer_init h q) = None \<and>
    audio_media (MiniPlayer_init h q) = None \<and>
    window_title (MiniPlayer_init h q) = ''Mini Player'' \<and>
    plays (trace (MiniPlayer_init h q)) = []"
proof -
  note eq = open_files_cancelled [OF assms]
  have frame: "video_mediaplayer (open_files h s) = video_mediaplayer s"
    "audio_mediaplayer (open_files h s) = audio_mediaplayer s"
    "video_media (open_files h s) = video_media s"
    "audio_media (open_files h s) = audio_media s"
    "store (open_files h s) = store s"
    "window_title (open_files h s) = window_title s" for s
    by (simp_all add: eq)
  have iss: "issued s (open_files h s) =
      (if fst (getOpenFileName h ''Choose Video File'') = []
       then [GetOpenFileName ''Choose Video File'']
       else [GetOpenFileName ''Choose Video File'', GetOpenFileName ''Choose Audio File''])"
    by (rule issued_append) (simp add: eq)
  have pl: "plays (issued s (open_files h s)) = []"
    by (simp add: iss)
  have init: "bound (video_mediaplayer (MiniPlayer_init h q)) = None"
    "bound (audio_mediaplayer (MiniPlayer_init h q)) = None"
    "video_media (MiniPlayer_init h q) = None"
    "audio_media (MiniPlayer_init h q) = None"
    "window_title (MiniPlayer_init h q) = ''Mini Player''"
    by (simp_all add: MiniPlayer_init_def Let_def frame setWindowTitle_def showMessage_def
        emit_def media_player_new_def)
  have "plays (trace (MiniPlayer_init h q)) = []"
    by (simp add: MiniPlayer_init_def Let_def eq setWindowTitle_def showMessage_def emit_def)
  with frame iss pl init show ?thesis by simp
qed

theorem open_files_cancelled_leaves_state_witness:
  "fst (getOpenFileName (desktop ''Linux'' ''clip.mp4'' []) ''Choose Video File'') = ''clip.mp4'' \<and>
   fst (getOpenFileName (desktop ''Linux'' ''clip.mp4'' []) ''Choose Audio File'') = [] \<and>
   video_mediaplayer (open_files (desktop ''Linux'' ''clip.mp4'' []) (window (- 1) False (- 1) False []))
     = \<lparr>bound = None, surface = None, ptime = - 1, playing = False\<rparr> \<and>
   audio_mediaplayer (open_files (desktop ''Linux'' ''clip.mp4'' []) (window (- 1) False (- 1) False []))
     = \<lparr>bound = None, surface = None, ptime = - 1, playing = False\<rparr> \<and>
   window_title (open_files (desktop ''Linux'' ''clip.mp4'' []) (window (- 1) False (- 1) False []))
     = ''Mini Player'' \<and>
   issued (window (- 1) False (- 1) False [])
       (open_files (desktop ''Linux'' ''clip.mp4'' []) (window (- 1) False (- 1) False []))
     = [GetOpenFileName ''Choose Video File'', GetOpenFileName ''Choose Audio File'']"
  using open_files_cancelled_leaves_state
    [of "desktop ''Linux'' ''clip.mp4'' []" "window (- 1) False (- 1) False []" "[]"]
  by (simp add: desktop_def chooser_def window_def)

text \<open>
  Claim C7, as stated, fails where \<^verbatim>\<open>platform.system()\<close> is none of the three names the
  program knows: on \<^verbatim>\<open>FreeBSD\<close>, with both files chosen, the media are bound and parsed,
  the title is set and both players are started, but no player is attached to any surface.
\<close>

theorem open_files_attaches_nothing_on_freebsd:
  "fst (getOpenFileName (desktop ''FreeBSD'' ''clip.mp4'' ''clip.mp3'') ''Choose Video File'') = ''clip.mp4'' \<and>
   fst (getOpenFileName (desktop ''FreeBSD'' ''clip.mp4'' ''clip.mp3'') ''Choose Audio File'') = ''clip.mp3'' \<and>
   surface (video_mediaplayer (open_files (desktop ''FreeBSD'' ''clip.mp4'' ''clip.mp3'')
     (window (- 1) False (- 1) False []))) = None \<and>
   surface (audio_mediaplayer (open_files (desktop ''FreeBSD'' ''clip.mp4'' ''clip.mp3'')
     (window (- 1) False (- 1) False []))) = None \<and>
   issued (window (- 1) False (- 1) False [])
     (open_files (desktop ''FreeBSD'' ''clip.mp4'' ''clip.mp3'') (window (- 1) False (- 1) False [])) =
     [GetOpenFileName ''Choose Video File'', GetOpenFileName ''Choose Audio File'',
      MediaNew Video ''clip.mp4'', MediaNew Audio ''clip.mp3'', SetMedia Video, SetMedia Audio,
      Parse Video, Parse Audio, SetWindowTitle ''Clip'', Play Video, Play Audio]"
proof -
  let ?h = "desktop ''FreeBSD'' ''clip.mp4'' ''clip.mp3''"
  have v: "fst (getOpenFileName ?h ''Choose Video File'') = ''clip.mp4''" "''clip.mp4'' \<noteq> []"
    and a: "fst (getOpenFileName ?h ''Choose Audio File'') = ''clip.mp3''" "''clip.mp3'' \<noteq> []"
    by (simp_all add: desktop_def chooser_def)
  have os: "platform_system ?h = ''FreeBSD''"
    and meta: "file_meta ?h ''clip.mp4'' 0 = Some ''Clip''"
    by (simp_all add: desktop_def clip_meta_def)
  have sv: "surface (video_mediaplayer (open_files ?h (window (- 1) False (- 1) False []))) = None"
    and sa: "surface (audio_mediaplayer (open_files ?h (window (- 1) False (- 1) False []))) = None"
    by (simp_all add: open_files_loaded [OF v a] play_frame attach_surface os window_def)
  have "trace (open_files ?h (window (- 1) False (- 1) False [])) =
      trace (window (- 1) False (- 1) False []) @
     [GetOpenFileName ''Choose Video File'', GetOpenFileName ''Choose Audio File'',
      MediaNew Video ''clip.mp4'', MediaNew Audio ''clip.mp3'', SetMedia Video, SetMedia Audio,
      Parse Video, Parse Audio, SetWindowTitle ''Clip'', Play Video, Play Audio]"
    by (simp add: open_files_loaded [OF v a] play_frame attach_trace os meta)
  from issued_append [OF this] v(1) a(1) sv sa show ?thesis by simp
qed

text \<open>
  Claim C7, amended. With both file names non-empty, \<^verbatim>\<open>open_files\<close> creates a media
  object for each path, binds the video one to the video player and the audio one to the
  audio player, parses both, sets the window title from the title metadata of the video
  media, attaches both players to the window id of the video frame with
  \<^verbatim>\<open>set_xwindow\<close> on Linux, \<^verbatim>\<open>set_hwnd\<close> on Windows and \<^verbatim>\<open>set_nsobject\<close> on Darwin,
  attaches nothing on any other platform, and sends play to the video player and then to
  the audio player. With an empty file name the title stays and no play is sent.
\<close>

theorem open_files_loads_attaches_plays:
  fixes h :: host and s :: mini_player
  defines "v \<equiv> fst (getOpenFileName h ''Choose Video File'')"
  defines "a \<equiv> fst (getOpenFileName h ''Choose Audio File'')"
  defines "s' \<equiv> open_files h s"
  shows "(v \<noteq> [] \<and> a \<noteq> [] \<longrightarrow>
      store s' = store s @ [\<lparr>mrl = v, parsed = True\<rparr>, \<lparr>mrl = a, parsed = True\<rparr>] \<and>
      video_media s' = Some (length (store s)) \<and>
      audio_media s' = Some (Suc (length (store s))) \<and>
      bound (video_mediaplayer s') = Some (length (store s)) \<and>
      bound (audio_mediaplayer s') = Some (Suc (length (store s))) \<and>
      window_title s' = py_format (file_meta h v 0) \<and>
      surface (video_mediaplayer s') =
        (if platform_system h = ''Linux'' then Some (XWindow (winId h))
         else if platform_system h = ''Windows'' then Some (Hwnd (winId h))
         else if platform_system h = ''Darwin'' then Some (NsObject (winId h))
         else surface (video_mediaplayer s)) \<and>
      surface (audio_mediaplayer s') =
        (if platform_system h = ''Linux'' then Some (XWindow (winId h))
         else if platform_system h = ''Windows'' then Some (Hwnd (winId h))
         else if platform_system h = ''Darwin'' then Some (NsObject (winId h))
         else surface (audio_mediaplayer s)) \<and>
      playing (video_mediaplayer s') \<and> playing (audio_mediaplayer s') \<and>
      issued s s' =
        [GetOpenFileName ''Choose Video File'', GetOpenFileName ''Choose Audio File'',
         MediaNew Video v, MediaNew Audio a, SetMedia Video, SetMedia Audio,
         Parse Video, Parse Audio, SetWindowTitle (py_format (file_meta h v 0))] @
        (if platform_system h = ''Linux'' then [SetXWindow Video (winId h), SetXWindow Audio (winId h)]
         else if platform_system h = ''Windows'' then [SetHwnd Video (winId h), SetHwnd Audio (winId h)]
         else if platform_system h = ''Darwin'' then [SetNsObject Video (winId h), SetNsObject Audio (winId h)]
         else []) @
        [Play Video, Play Audio]) \<and>
    (v = [] \<or> a = [] \<longrightarrow>
      window_title s' = window_title s \<and> plays (issued s s') = [] \<and>
      playing (video_mediaplayer s') = playing (video_mediaplayer s) \<and>
      playing (audio_mediaplayer s') = playing (audio_mediaplayer s))"
proof -
  have loaded: "store s' = store s @ [\<lparr>mrl = v, parsed = True\<rparr>, \<lparr>mrl = a, parsed = True\<rparr>] \<and>
      video_media s' = Some (length (store s)) \<and>
      audio_media s' = Some (Suc (length (store s))) \<and>
      bound (video_mediaplayer s') = Some (length (store s)) \<and>
      bound (audio_mediaplayer s') = Some (Suc (length (store s))) \<and>
      window_title s' = py_format (file_meta h v 0) \<and>
      surface (video_mediaplayer s') =
        (if platform_system h = ''Linux'' then Some (XWindow (winId h))
         else if platform_system h = ''Windows'' then Some (Hwnd (winId h))
         else if platform_system h = ''Darwin'' then Some (NsObject (winId h))
         else surface (video_mediaplayer s)) \<and>
      surface (audio_mediaplayer s') =
        (if platform_system h = ''Linux'' then Some (XWindow (winId h))
         else if platform_system h = ''Windows'' then Some (Hwnd (winId h))
         else if platform_system h = ''Darwin'' then Some (NsObject (winId h))
         else surface (audio_mediaplayer s)) \<and>
      playing (video_mediaplayer s') \<and> playing (audio_mediaplayer s') \<and>
      issued s s' =
        [GetOpenFileName ''Choose Video File'', GetOpenFileName ''Choose Audio File'',
         MediaNew Video v, MediaNew Audio a, SetMedia Video, SetMedia Audio,
         Parse Video, Parse Audio, SetWindowTitle (py_format (file_meta h v 0))] @
        (if platform_system h = ''Linux'' then [SetXWindow Video (winId h), SetXWindow Audio (winId h)]
         else if platform_system h = ''Windows'' then [SetHwnd Video (winId h), SetHwnd Audio (winId h)]
         else if platform_system h = ''Darwin'' then [SetNsObject Video (winId h), SetNsObject Audio (winId h)]
         else []) @
        [Play Video, Play Audio]"
    if ne: "v \<noteq> []" "a \<noteq> []"
  proof -
    have v': "fst (getOpenFileName h ''Choose Video File'') = v"
      and a': "fst (getOpenFileName h ''Choose Audio File'') = a"
      by (simp_all add: v_def a_def)
    note eq = open_files_loaded [OF v' ne(1) a' ne(2), of s, folded s'_def]
    have fields: "store s' = store s @ [\<lparr>mrl = v, parsed = True\<rparr>, \<lparr>mrl = a, parsed = True\<rparr>]"
      "video_media s' = Some (length (store s))"
      "audio_media s' = Some (Suc (length (store s)))"
      "bound (video_mediaplayer s') = Some (length (store s))"
      "bound (audio_mediaplayer s') = Some (Suc (length (store s)))"
      "window_title s' = py_format (file_meta h v 0)"
      by (simp_all add: eq play_frame attach_frame)
    have surf: "surface (video_mediaplayer s') =
        (if platform_system h = ''Linux'' then Some (XWindow (winId h))
         else if platform_system h = ''Windows'' then Some (Hwnd (winId h))
         else if platform_system h = ''Darwin'' then Some (NsObject (winId h))
         else surface (video_mediaplayer s))"
      "surface (audio_mediaplayer s') =
        (if platform_system h = ''Linux'' then Some (XWindow (winId h))
         else if platform_system h = ''Windows'' then Some (Hwnd (winId h))
         else if platform_system h = ''Darwin'' then Some (NsObject (winId h))
         else surface (audio_mediaplayer s))"
      by (simp_all only: eq play_frame attach_surface) simp_all
    have pl: "playing (video_mediaplayer s')" "playing (audio_mediaplayer s')"
      by (simp_all add: eq play_playing)
    have "trace s' = trace s @
        [GetOpenFileName ''Choose Video File'', GetOpenFileName ''Choose Audio File'',
         MediaNew Video v, MediaNew Audio a, SetMedia Video, SetMedia Audio,
         Parse Video, Parse Audio, SetWindowTitle (py_format (file_meta h v 0))] @
        (if platform_system h = ''Linux'' then [SetXWindow Video (winId h), SetXWindow Audio (winId h)]
         else if platform_system h = ''Windows'' then [SetHwnd Video (winId h), SetHwnd Audio (winId h)]
         else if platform_system h = ''Darwin'' then [SetNsObject Video (winId h), SetNsObject Audio (winId h)]
         else []) @
        [Play Video, Play Audio]"
      by (simp only: eq play_frame attach_trace) simp
    from issued_append [OF this] fields surf pl show ?thesis
      by (simp only: simp_thms)
  qed
  have cancelled: "window_title s' = window_title s \<and> plays (issued s s') = [] \<and>
      playing (video_mediaplayer s') = playing (video_mediaplayer s) \<and>
      playing (audio_mediaplayer s') = playing (audio_mediaplayer s)"
    if "v = [] \<or> a = []"
  proof -
    from that have c: "fst (getOpenFileName h ''Choose Video File'') = [] \<or>
           fst (getOpenFileName h ''Choose Audio File'') = []"
      by (simp add: v_def a_def)
    note eq = open_files_cancelled [OF c, of s, folded s'_def]
    have "issued s s' = (if fst (getOpenFileName h ''Choose Video File'') = []
      then [GetOpenFileName ''Choose Video File'']
      else [GetOpenFileName ''Choose Video File'', GetOpenFileName ''Choose Audio File''])"
      by (rule issued_append) (simp add: eq)
    then show ?thesis by (simp add: eq)
  qed
  from loaded cancelled show ?thesis by blast
qed

theorem open_files_loads_attaches_plays_witness:
  "fst (getOpenFileName (desktop ''Linux'' ''clip.mp4'' ''clip.mp3'') ''Choose Video File'') = ''clip.mp4'' \<and>
   fst (getOpenFileName (desktop ''Linux'' ''clip.mp4'' ''clip.mp3'') ''Choose Audio File'') = ''clip.mp3'' \<and>
   store (open_files (desktop ''Linux'' ''clip.mp4'' ''clip.mp3'') (window (- 1) False (- 1) False [])) =
     [\<lparr>mrl = ''clip.mp4'', parsed = True\<rparr>, \<lparr>mrl = ''clip.mp3'', parsed = True\<rparr>] \<and>
   bound (video_mediaplayer (open_files (desktop ''Linux'' ''clip.mp4'' ''clip.mp3'')
     (window (- 1) False (- 1) False []))) = Some 0 \<and>
   bound (audio_mediaplayer (open_files (desktop ''Linux'' ''clip.mp4'' ''clip.mp3'')
     (window (- 1) False (- 1) False []))) = Some 1 \<and>
   surface (video_mediaplayer (open_files (desktop ''Linux'' ''clip.mp4'' ''clip.mp3'')
     (window (- 1) False (- 1) False []))) = Some (XWindow 77) \<and>
   surface (audio_mediaplayer (open_files (desktop ''Linux'' ''clip.mp4'' ''clip.mp3'')
     (window (- 1) False (- 1) False []))) = Some (XWindow 77) \<and>
   playing (video_mediaplayer (open_files (desktop ''Linux'' ''clip.mp4'' ''clip.mp3'')
     (window (- 1) False (- 1) False []))) = True \<and>
   playing (audio_mediaplayer (open_files (desktop ''Linux'' ''clip.mp4'' ''clip.mp3'')
     (window (- 1) False (- 1) False []))) = True \<and>
   window_title (open_files (desktop ''Linux'' ''clip.mp4'' ''clip.mp3'')
     (window (- 1) False (- 1) False [])) = ''Clip'' \<and>
   window_title (open_files (desktop ''Linux'' [] ''clip.mp3'')
     (window (- 1) False (- 1) False [])) = ''Mini Player'' \<and>
   playing (video_mediaplayer (open_files (desktop ''Linux'' [] ''clip.mp3'')
     (window (- 1) False (- 1) False []))) = False"
  using open_files_loads_attaches_plays
      [of "desktop ''Linux'' ''clip.mp4'' ''clip.mp3''" "window (- 1) False (- 1) False []"]
    open_files_loads_attaches_plays
      [of "desktop ''Linux'' [] ''clip.mp3''" "window (- 1) False (- 1) False []"]
  by (simp add: desktop_def chooser_def clip_meta_def window_def)

end
